theory Spec2Isabelle
  imports Main
begin

section \<open>Schema (app/db/schema.ts)\<close>

text \<open>
  The three tables of the travel-journal application that the note services read and
  write. Every column of the schema is a field of the row record; the field names are
  the column names of the source with a one-letter table prefix (\<open>u_\<close>, \<open>n_\<close>, \<open>m_\<close>),
  because \<open>id\<close>, \<open>createdAt\<close>, \<open>updatedAt\<close> occur in several tables.
  A nullable column is an \<open>option\<close>. Timestamps are integers (milliseconds). A value
  of a \<open>uuid\<close> column is the text the database prints for it: 32 lower-case
  hexadecimal digits grouped 8-4-4-4-12.
\<close>

datatype user_role = Auditor | Admin | User
datatype note_status = Pending | Approved | Rejected
datatype media_type = Image_media | Video_media

type_synonym uuid = string
type_synonym timestamp = int

record user_row =
  u_id :: uuid
  u_username :: string
  u_passwordHash :: string
  u_nickname :: string
  u_avatarUrl :: "string option"
  u_role :: user_role
  u_createdAt :: timestamp
  u_updatedAt :: timestamp

record travel_note =
  n_id :: uuid
  n_userId :: uuid
  n_title :: string
  n_content :: string
  n_location :: "string option"
  n_status :: note_status
  n_rejectionReason :: "string option"
  n_isDeleted :: bool
  n_createdAt :: timestamp
  n_updatedAt :: timestamp

record note_media =
  m_id :: nat
  m_noteId :: uuid
  m_mediaType :: media_type
  m_url :: string
  m_order :: int
  m_createdAt :: timestamp

text \<open>
  The database: each table is the list of its rows in storage (insertion) order, and
  \<open>noteMedia_seq\<close> is the next value of the serial column \<open>note_media.id\<close>.
  A query without \<open>orderBy\<close> returns rows in storage order; an \<open>orderBy\<close> is a stable
  sort of the storage order.
\<close>

record db =
  users :: "user_row list"
  travelNotes :: "travel_note list"
  noteMedia :: "note_media list"
  noteMedia_seq :: nat

text \<open>
  A statement sent to the database can be rejected (connection lost, a constraint or
  a length limit violated, ...); the driver then throws. Which statements are rejected
  is an input of the model: \<open>f s\<close> says that statement \<open>s\<close> throws. The primary key of
  \<open>travel_notes\<close> and the two foreign keys are checked by the model itself.
\<close>

datatype stmt =
    GetUserNotes_findMany
  | GetNoteById_findFirst
  | CreateNote_insertNote
  | CreateNote_insertMedia
  | UpdateNote_findFirst
  | UpdateNote_update
  | UpdateNote_deleteMedia
  | UpdateNote_insertMedia
  | DeleteNote_findFirst
  | DeleteNote_update
  | GetPublishedNotes_findMany
  | GetNotesForReview_select
  | GetNotesForReview_count
  | UpdateNoteStatus_update
  | AdminDeleteNote_update
  | GetNoteDetails_findFirst
  | GetLoggedInUser_select
  | PopularDestinations_select

type_synonym faults = "stmt \<Rightarrow> bool"

definition no_faults :: faults where
  "no_faults = (\<lambda>_. False)"

section \<open>Identifiers\<close>

text \<open>
  The services receive ids as strings and hand them to the database, which reads a
  string compared with (or stored in) a \<open>uuid\<close> column with the input function of
  the type: an optional opening brace, sixteen pairs of hexadecimal digits in either
  case, an optional hyphen after each group of four digits, and the closing brace if
  there was an opening one. A string of another shape is rejected and the statement
  throws. \<open>uuid_in\<close> returns the value in the text form the database prints.
\<close>

definition isxdigit :: "char \<Rightarrow> bool" where
  "isxdigit c = (c \<in> set ''0123456789abcdefABCDEF'')"

definition tolower_hex :: "char \<Rightarrow> char" where
  "tolower_hex c = (case map_of (zip ''ABCDEF'' ''abcdef'') c of None \<Rightarrow> c | Some l \<Rightarrow> l)"

text \<open>
  \<open>uuid_loop n src\<close> reads the last \<open>n\<close> of the sixteen bytes from \<open>src\<close>, so that
  \<open>uuid_loop (Suc n)\<close> starts with the byte of index \<open>15 - n\<close>; a hyphen is skipped
  after a byte of odd index other than the last. It returns the digits read, in lower
  case, and the rest of \<open>src\<close>.
\<close>

fun uuid_loop :: "nat \<Rightarrow> string \<Rightarrow> (string \<times> string) option" where
  "uuid_loop 0 src = Some ([], src)"
| "uuid_loop (Suc n) src =
     (case src of
        a # b # rest \<Rightarrow>
          if isxdigit a \<and> isxdigit b
          then map_option (\<lambda>(ds, tl). (tolower_hex a # tolower_hex b # ds, tl))
                 (uuid_loop n
                    (case rest of
                       [] \<Rightarrow> []
                     | c # r \<Rightarrow> if c = CHR ''-'' \<and> odd (15 - n) \<and> 15 - n < 15 then r else rest))
          else None
      | _ \<Rightarrow> None)"

definition uuid_out :: "string \<Rightarrow> uuid" where
  "uuid_out ds =
     take 8 ds @ ''-'' @ take 4 (drop 8 ds) @ ''-'' @ take 4 (drop 12 ds) @ ''-''
       @ take 4 (drop 16 ds) @ ''-'' @ drop 20 ds"

definition uuid_in :: "string \<Rightarrow> uuid option" where
  "uuid_in s =
     (let braces = (case s of [] \<Rightarrow> False | c # r \<Rightarrow> c = CHR ''{'');
          src = (if braces then tl s else s)
      in case uuid_loop 16 src of
           None \<Rightarrow> None
         | Some (ds, rest) \<Rightarrow>
             if rest = (if braces then ''}'' else []) then Some (uuid_out ds) else None)"

section \<open>Relational queries (app/services/notes.server.ts)\<close>

text \<open>
  The result of \<open>db.query.travelNotes.findFirst/findMany\<close> with
  \<open>with: { media: true, user: { columns: { id, nickname, avatarUrl } } }\<close>:
  the note row, its media rows and the three columns of its author.
\<close>

record user_cols =
  uc_id :: uuid
  uc_nickname :: string
  uc_avatarUrl :: "string option"

record note_with =
  w_note :: travel_note
  w_media :: "note_media list"
  w_user :: "user_cols option"

definition user_columns :: "db \<Rightarrow> uuid \<Rightarrow> user_cols option" where
  "user_columns d uid =
     map_option (\<lambda>u. \<lparr>uc_id = u_id u, uc_nickname = u_nickname u, uc_avatarUrl = u_avatarUrl u\<rparr>)
       (find (\<lambda>u. u_id u = uid) (users d))"

definition media_of :: "db \<Rightarrow> uuid \<Rightarrow> note_media list" where
  "media_of d nid = filter (\<lambda>m. m_noteId m = nid) (noteMedia d)"

definition with_media_user :: "db \<Rightarrow> travel_note \<Rightarrow> note_with" where
  "with_media_user d n =
     \<lparr>w_note = n, w_media = media_of d (n_id n), w_user = user_columns d (n_userId n)\<rparr>"

text \<open>\<open>orderBy: [desc(travelNotes.createdAt)]\<close>: newest first, ties in storage order.\<close>

definition newest_first :: "travel_note list \<Rightarrow> travel_note list" where
  "newest_first ns = sort_key (\<lambda>n. - n_createdAt n) ns"

text \<open>
  \<open>getUserNotes(userId)\<close>: every note of the user, deleted or not; \<open>[]\<close> when the query
  throws.
\<close>

definition getUserNotes :: "faults \<Rightarrow> string \<Rightarrow> db \<Rightarrow> note_with list" where
  "getUserNotes f userId d =
     (if f GetUserNotes_findMany then []
      else case uuid_in userId of
        None \<Rightarrow> []
      | Some u \<Rightarrow>
          map (with_media_user d)
            (newest_first (filter (\<lambda>n. n_userId n = u) (travelNotes d))))"

text \<open>
  \<open>getNoteById(id)\<close>: \<open>None\<close> stands for both \<open>undefined\<close> (no such row) and \<open>null\<close> (the
  query threw); every caller only tests the result for falsiness. The media relation
  carries no \<open>orderBy\<close>.
\<close>

definition getNoteById :: "faults \<Rightarrow> string \<Rightarrow> db \<Rightarrow> note_with option" where
  "getNoteById f ident d =
     (if f GetNoteById_findFirst then None
      else case uuid_in ident of
        None \<Rightarrow> None
      | Some u \<Rightarrow> map_option (with_media_user d) (find (\<lambda>n. n_id n = u) (travelNotes d)))"

text \<open>
  \<open>getNoteDetails(noteId)\<close>: as \<open>getNoteById\<close>, with the whole author row and the media
  ordered by \<open>asc(noteMedia.order)\<close>; throws when there is no such note.
\<close>

datatype details_error = Details_DbError | Details_NotFound

record note_details =
  nd_note :: travel_note
  nd_media :: "note_media list"
  nd_user :: "user_row option"

definition getNoteDetails :: "faults \<Rightarrow> string \<Rightarrow> db \<Rightarrow> details_error + note_details" where
  "getNoteDetails f noteId d =
     (if f GetNoteDetails_findFirst then Inl Details_DbError
      else case uuid_in noteId of
        None \<Rightarrow> Inl Details_DbError
      | Some u \<Rightarrow>
          (case find (\<lambda>n. n_id n = u) (travelNotes d) of
             None \<Rightarrow> Inl Details_NotFound
           | Some n \<Rightarrow> Inr \<lparr>nd_note = n,
                           nd_media = sort_key m_order (media_of d (n_id n)),
                           nd_user = find (\<lambda>u. u_id u = n_userId n) (users d)\<rparr>))"

section \<open>Creating a note\<close>

text \<open>
  An entry of the \<open>media\<close> argument of \<open>createNote\<close> and \<open>updateNote\<close>:
  \<open>{ type, url, order? }\<close> (the entries of \<open>updateNote\<close> also carry an optional \<open>id\<close>,
  which is never read).
\<close>

record media_input =
  mi_type :: media_type
  mi_url :: string
  mi_order :: "int option"

text \<open>
  \<open>media.map((m, index) => ({ noteId, mediaType: m.type, url: m.url, order: m.order ?? index }))\<close>
  followed by \<open>db.insert(noteMedia).values(mediaRows)\<close>: the rows are appended in list
  order, with consecutive serial ids and \<open>createdAt = now\<close>.
\<close>

definition mediaRows :: "uuid \<Rightarrow> timestamp \<Rightarrow> nat \<Rightarrow> media_input list \<Rightarrow> note_media list" where
  "mediaRows noteId now seq media =
     map (\<lambda>(index, m).
            \<lparr>m_id = seq + index, m_noteId = noteId, m_mediaType = mi_type m, m_url = mi_url m,
             m_order = (case mi_order m of Some k \<Rightarrow> k | None \<Rightarrow> int index),
             m_createdAt = now\<rparr>)
         (enumerate 0 media)"

definition insert_media :: "uuid \<Rightarrow> timestamp \<Rightarrow> media_input list \<Rightarrow> db \<Rightarrow> db" where
  "insert_media noteId now media d =
     d\<lparr>noteMedia := noteMedia d @ mediaRows noteId now (noteMedia_seq d) media,
       noteMedia_seq := noteMedia_seq d + length media\<rparr>"

record create_input =
  ci_userId :: string
  ci_title :: string
  ci_content :: string
  ci_location :: "string option"
  ci_media :: "media_input list"

text \<open>
  \<open>createNote\<close>. \<open>newId\<close> is the uuid drawn by \<open>defaultRandom()\<close>, as the database
  prints it, and \<open>now\<close> the clock (\<open>defaultNow()\<close>). The insert is rejected when
  \<open>userId\<close> is not a uuid, when the id is taken or when the user does not exist; an
  accepted insert returns its row, so \<open>if (!note) throw\<close> is not taken.
  There is no transaction: each statement commits on its own, and the \<open>catch\<close>
  returns \<open>null\<close> with whatever was committed before the failure.
\<close>

definition new_note :: "uuid \<Rightarrow> uuid \<Rightarrow> timestamp \<Rightarrow> create_input \<Rightarrow> travel_note" where
  "new_note newId userId now i =
     \<lparr>n_id = newId, n_userId = userId, n_title = ci_title i, n_content = ci_content i,
      n_location = Some (case ci_location i of None \<Rightarrow> [] | Some l \<Rightarrow> l),
      n_status = Pending, n_rejectionReason = None, n_isDeleted = False,
      n_createdAt = now, n_updatedAt = now\<rparr>"

definition createNote ::
  "faults \<Rightarrow> timestamp \<Rightarrow> uuid \<Rightarrow> create_input \<Rightarrow> db \<Rightarrow> note_with option \<times> db" where
  "createNote f now newId i d =
     (case uuid_in (ci_userId i) of
        None \<Rightarrow> (None, d)
      | Some userId \<Rightarrow>
          if f CreateNote_insertNote \<or> newId \<in> set (map n_id (travelNotes d))
             \<or> userId \<notin> set (map u_id (users d))
          then (None, d)
          else
            let d1 = d\<lparr>travelNotes := travelNotes d @ [new_note newId userId now i]\<rparr> in
            if ci_media i \<noteq> [] \<and> f CreateNote_insertMedia then (None, d1)
            else
              let d2 = (if ci_media i \<noteq> [] then insert_media newId now (ci_media i) d1 else d1)
              in (getNoteById f newId d2, d2))"

section \<open>Editing and deleting a note\<close>

text \<open>JavaScript truthiness of an optional string: present and not empty.\<close>

definition truthy :: "string option \<Rightarrow> bool" where
  "truthy s = (case s of None \<Rightarrow> False | Some t \<Rightarrow> t \<noteq> [])"

record update_input =
  up_id :: string
  up_userId :: string
  up_title :: string
  up_content :: string
  up_location :: "string option"
  up_media :: "media_input list"

datatype update_result = UpdError string | UpdNote "note_with option"

text \<open>
  The \<open>set\<close> clause of \<open>updateNote\<close>:
  \<open>{ title, content, location: location || existingNote.location, status: "pending",
       updatedAt: new Date() }\<close>. The column \<open>rejectionReason\<close> is not in it.
\<close>

definition updateNote_set ::
  "timestamp \<Rightarrow> update_input \<Rightarrow> travel_note \<Rightarrow> travel_note \<Rightarrow> travel_note" where
  "updateNote_set now i existingNote n =
     n\<lparr>n_title := up_title i, n_content := up_content i,
       n_location := (if truthy (up_location i) then up_location i else n_location existingNote),
       n_status := Pending, n_updatedAt := now\<rparr>"

text \<open>
  \<open>updateNote\<close>: ownership check, update of the row, deletion of the note's media,
  insertion of the new media, then \<open>{ note: await getNoteById(id) }\<close>. The branch
  \<open>if (!updatedNote)\<close> cannot be taken after the ownership check found the row, since
  the update addresses the same id. No transaction; the \<open>catch\<close> answers
  \<open>{ error: "UPDATE_FAILED" }\<close>, also when \<open>id\<close> or \<open>userId\<close> is not a uuid and the
  first query throws.
\<close>

definition updateNote ::
  "faults \<Rightarrow> timestamp \<Rightarrow> update_input \<Rightarrow> db \<Rightarrow> update_result \<times> db" where
  "updateNote f now i d =
     (if f UpdateNote_findFirst then (UpdError ''UPDATE_FAILED'', d)
      else case uuid_in (up_id i) of
        None \<Rightarrow> (UpdError ''UPDATE_FAILED'', d)
      | Some ident \<Rightarrow>
      (case uuid_in (up_userId i) of
        None \<Rightarrow> (UpdError ''UPDATE_FAILED'', d)
      | Some userId \<Rightarrow>
      (case find (\<lambda>n. n_id n = ident \<and> n_userId n = userId) (travelNotes d) of
        None \<Rightarrow> (UpdError ''NOTE_NOT_FOUND'', d)
      | Some existingNote \<Rightarrow>
          if f UpdateNote_update then (UpdError ''UPDATE_FAILED'', d)
          else
            let d1 = d\<lparr>travelNotes :=
                         map (\<lambda>n. if n_id n = ident then updateNote_set now i existingNote n else n)
                             (travelNotes d)\<rparr> in
            if f UpdateNote_deleteMedia then (UpdError ''UPDATE_FAILED'', d1)
            else
              let d2 = d1\<lparr>noteMedia := filter (\<lambda>m. m_noteId m \<noteq> ident) (noteMedia d1)\<rparr> in
              if up_media i \<noteq> [] \<and> f UpdateNote_insertMedia then (UpdError ''UPDATE_FAILED'', d2)
              else
                let d3 = (if up_media i \<noteq> [] then insert_media ident now (up_media i) d2
                          else d2)
                in (UpdNote (getNoteById f (up_id i) d3), d3))))"

datatype delete_result = DelError string | DelSuccess

text \<open>
  \<open>deleteNote(id, userId)\<close>: the owner's logical delete. The schema's
  \<open>$onUpdate(() => new Date())\<close> on \<open>updatedAt\<close> stamps the row on every update that
  does not set the column itself.
\<close>

definition deleteNote ::
  "faults \<Rightarrow> timestamp \<Rightarrow> string \<Rightarrow> string \<Rightarrow> db \<Rightarrow> delete_result \<times> db" where
  "deleteNote f now ident userId d =
     (if f DeleteNote_findFirst then (DelError ''DELETE_FAILED'', d)
      else case uuid_in ident of
        None \<Rightarrow> (DelError ''DELETE_FAILED'', d)
      | Some k \<Rightarrow>
      (case uuid_in userId of
        None \<Rightarrow> (DelError ''DELETE_FAILED'', d)
      | Some u \<Rightarrow>
      (case find (\<lambda>n. n_id n = k \<and> n_userId n = u) (travelNotes d) of
        None \<Rightarrow> (DelError ''NOTE_NOT_FOUND'', d)
      | Some existingNote \<Rightarrow>
          if f DeleteNote_update then (DelError ''DELETE_FAILED'', d)
          else (DelSuccess,
                d\<lparr>travelNotes :=
                    map (\<lambda>n. if n_id n = k then n\<lparr>n_isDeleted := True, n_updatedAt := now\<rparr>
                              else n)
                        (travelNotes d)\<rparr>))))"

section \<open>Listings\<close>

text \<open>
  \<open>getPublishedNotes({ limit = 10, offset = 0 })\<close>; \<open>limit\<close> and \<open>offset\<close> are natural
  numbers here (the only caller passes \<open>limit: 20\<close>).
\<close>

definition getPublishedNotes ::
  "faults \<Rightarrow> nat option \<Rightarrow> nat option \<Rightarrow> db \<Rightarrow> note_with list" where
  "getPublishedNotes f limit offset d =
     (if f GetPublishedNotes_findMany then []
      else map (with_media_user d)
             (take (case limit of None \<Rightarrow> 10 | Some l \<Rightarrow> l)
                (drop (case offset of None \<Rightarrow> 0 | Some k \<Rightarrow> k)
                   (newest_first
                      (filter (\<lambda>n. n_status n = Approved \<and> n_isDeleted n = False)
                         (travelNotes d))))))"

text \<open>
  \<open>getNotesForReview({ status, page = 1, limit = 10, search })\<close>. The SQL operator
  \<open>LIKE\<close> belongs to the database and is the parameter \<open>like value pattern\<close>. The left
  join with \<open>users\<close> finds at most one row (primary key), and the grouping by every
  selected column leaves one group per note, whose \<open>COUNT(noteMedia.id)\<close> is the
  number of its media rows. A negative \<open>OFFSET\<close> is rejected by the database, and the
  function has no \<open>catch\<close>.
\<close>

datatype db_error = DbError

record review_query =
  rq_status :: "note_status option"
  rq_page :: "int option"
  rq_limit :: "nat option"
  rq_search :: "string option"

record author =
  a_id :: uuid
  a_username :: string
  a_nickname :: string
  a_avatarUrl :: "string option"

record review_row =
  r_id :: uuid
  r_title :: string
  r_content :: string
  r_status :: note_status
  r_rejectionReason :: "string option"
  r_createdAt :: timestamp
  r_updatedAt :: timestamp
  r_isDeleted :: bool
  r_author :: "author option"
  r_mediaCount :: nat

record pagination =
  pg_page :: int
  pg_limit :: nat
  pg_total :: nat
  pg_totalPages :: "nat option"

record review_result =
  rr_notes :: "review_row list"
  rr_pagination :: pagination

definition whereConditions ::
  "(string \<Rightarrow> string \<Rightarrow> bool) \<Rightarrow> review_query \<Rightarrow> db \<Rightarrow> travel_note \<Rightarrow> bool" where
  "whereConditions like q d n =
     (n_isDeleted n = False
      \<and> (case rq_status q of None \<Rightarrow> True | Some s \<Rightarrow> n_status n = s)
      \<and> (case rq_search q of
            None \<Rightarrow> True
          | Some search \<Rightarrow>
              search = []
              \<or> like (n_title n) (''%'' @ search @ ''%'')
              \<or> (case find (\<lambda>u. u_id u = n_userId n) (users d) of
                    None \<Rightarrow> False
                  | Some u \<Rightarrow> like (u_nickname u) (''%'' @ search @ ''%''))))"

definition review_row_of :: "db \<Rightarrow> travel_note \<Rightarrow> review_row" where
  "review_row_of d n =
     \<lparr>r_id = n_id n, r_title = n_title n, r_content = n_content n, r_status = n_status n,
      r_rejectionReason = n_rejectionReason n, r_createdAt = n_createdAt n,
      r_updatedAt = n_updatedAt n, r_isDeleted = n_isDeleted n,
      r_author = map_option
                   (\<lambda>u. \<lparr>a_id = u_id u, a_username = u_username u, a_nickname = u_nickname u,
                         a_avatarUrl = u_avatarUrl u\<rparr>)
                   (find (\<lambda>u. u_id u = n_userId n) (users d)),
      r_mediaCount = length (media_of d (n_id n))\<rparr>"

definition getNotesForReview ::
  "faults \<Rightarrow> (string \<Rightarrow> string \<Rightarrow> bool) \<Rightarrow> review_query \<Rightarrow> db \<Rightarrow> db_error + review_result" where
  "getNotesForReview f like q d =
     (let page = (case rq_page q of None \<Rightarrow> 1 | Some p \<Rightarrow> p);
          limit = (case rq_limit q of None \<Rightarrow> 10 | Some l \<Rightarrow> l);
          offset = (page - 1) * int limit;
          matching = filter (whereConditions like q d) (travelNotes d)
      in if f GetNotesForReview_select \<or> offset < 0 then Inl DbError
         else if f GetNotesForReview_count then Inl DbError
         else Inr \<lparr>rr_notes = map (review_row_of d)
                                (take limit (drop (nat offset) (newest_first matching))),
                   rr_pagination =
                     \<lparr>pg_page = page, pg_limit = limit, pg_total = length matching,
                      pg_totalPages =
                        (if limit = 0 then None
                         else Some ((length matching + limit - 1) div limit))\<rparr>\<rparr>)"

section \<open>Moderation\<close>

datatype success = Success_true

text \<open>
  \<open>updateNoteStatus({ noteId, status, rejectionReason })\<close>. With \<open>status = "rejected"\<close>
  and no reason the value handed to \<open>set\<close> is \<open>undefined\<close>, and the query builder leaves
  a column whose value is \<open>undefined\<close> out of the update. No \<open>catch\<close>, no look-up
  of the row: the function throws when the statement is rejected, as it is for a
  \<open>noteId\<close> that is not a uuid, and answers \<open>{ success: true }\<close> otherwise.
\<close>

definition updateNoteStatus ::
  "faults \<Rightarrow> timestamp \<Rightarrow> string \<Rightarrow> note_status \<Rightarrow> string option \<Rightarrow> db
     \<Rightarrow> (db_error + success) \<times> db" where
  "updateNoteStatus f now noteId status rejectionReason d =
     (if f UpdateNoteStatus_update then (Inl DbError, d)
      else case uuid_in noteId of
        None \<Rightarrow> (Inl DbError, d)
      | Some k \<Rightarrow>
           (Inr Success_true,
            d\<lparr>travelNotes :=
                map (\<lambda>n. if n_id n = k
                          then n\<lparr>n_status := status,
                                 n_rejectionReason :=
                                   (if status = Rejected
                                    then (case rejectionReason of
                                            None \<Rightarrow> n_rejectionReason n
                                          | Some r \<Rightarrow> Some r)
                                    else None),
                                 n_updatedAt := now\<rparr>
                          else n)
                    (travelNotes d)\<rparr>))"

text \<open>
  \<open>adminDeleteNote(noteId)\<close>: the same shape, one update and no \<open>catch\<close>.
\<close>

definition adminDeleteNote ::
  "faults \<Rightarrow> timestamp \<Rightarrow> string \<Rightarrow> db \<Rightarrow> (db_error + success) \<times> db" where
  "adminDeleteNote f now noteId d =
     (if f AdminDeleteNote_update then (Inl DbError, d)
      else case uuid_in noteId of
        None \<Rightarrow> (Inl DbError, d)
      | Some k \<Rightarrow>
           (Inr Success_true,
            d\<lparr>travelNotes :=
                map (\<lambda>n. if n_id n = k then n\<lparr>n_isDeleted := True, n_updatedAt := now\<rparr>
                          else n)
                    (travelNotes d)\<rparr>))"

section \<open>Routes\<close>

text \<open>
  What a Remix loader or action does: it returns \<open>json(body, { status })\<close>, or throws a
  \<open>Response\<close> with a status, or throws a redirect, or lets a database error escape.
\<close>

datatype 'a remix = Json 'a nat | Thrown_Response nat | Thrown_Redirect | Thrown_DbError

text \<open>
  \<open>getLoggedInUser(request)\<close> (app/services/auth.server.ts): the session cookie is
  reduced to the \<open>userId\<close> it stores, if any; the user row is returned without its
  password hash.
\<close>

record session_user =
  su_id :: uuid
  su_username :: string
  su_nickname :: string
  su_avatarUrl :: "string option"
  su_role :: user_role
  su_createdAt :: timestamp
  su_updatedAt :: timestamp

definition userWithoutPassword :: "user_row \<Rightarrow> session_user" where
  "userWithoutPassword u =
     \<lparr>su_id = u_id u, su_username = u_username u, su_nickname = u_nickname u,
      su_avatarUrl = u_avatarUrl u, su_role = u_role u, su_createdAt = u_createdAt u,
      su_updatedAt = u_updatedAt u\<rparr>"

definition getLoggedInUser ::
  "faults \<Rightarrow> string option \<Rightarrow> db \<Rightarrow> db_error + session_user option" where
  "getLoggedInUser f session d =
     (case session of
        None \<Rightarrow> Inr None
      | Some userId \<Rightarrow>
          if userId = [] then Inr None
          else if f GetLoggedInUser_select then Inl DbError
          else (case uuid_in userId of
                  None \<Rightarrow> Inl DbError
                | Some k \<Rightarrow>
                    (case take 1 (filter (\<lambda>u. u_id u = k) (users d)) of
                       [] \<Rightarrow> Inr None
                     | u # _ \<Rightarrow> Inr (Some (userWithoutPassword u)))))"

text \<open>
  The loader of app/routes/_user.note.$id.tsx: \<open>ident\<close> is \<open>params.id\<close>. The body of the
  answer is the note and \<open>isAuthor\<close>.
\<close>

definition may_not_view :: "session_user option \<Rightarrow> travel_note \<Rightarrow> bool" where
  "may_not_view user n =
     (n_status n \<noteq> Approved
      \<and> (case user of
           None \<Rightarrow> True
         | Some u \<Rightarrow> su_id u \<noteq> n_userId n \<and> su_role u \<noteq> Admin))"

definition isAuthor :: "session_user option \<Rightarrow> travel_note \<Rightarrow> bool" where
  "isAuthor user n = (case user of None \<Rightarrow> False | Some u \<Rightarrow> su_id u = n_userId n)"

definition loader_note_id ::
  "faults \<Rightarrow> string option \<Rightarrow> string option \<Rightarrow> db \<Rightarrow> (note_with \<times> bool) remix" where
  "loader_note_id f session ident d =
     (case ident of
        None \<Rightarrow> Thrown_Response 400
      | Some i \<Rightarrow>
          if i = [] then Thrown_Response 400
          else (case getLoggedInUser f session d of
                  Inl e \<Rightarrow> Thrown_DbError
                | Inr user \<Rightarrow>
                    (case getNoteById f i d of
                       None \<Rightarrow> Thrown_Response 404
                     | Some note \<Rightarrow>
                         if may_not_view user (w_note note) then Thrown_Response 403
                         else Json (note, isAuthor user (w_note note)) 200)))"

text \<open>
  The loader of the "my notes" page (src/unnamed/part_006): \<open>requireLoggedInUser\<close>
  redirects an anonymous caller; the notes of the user are fetched with
  \<open>getUserNotes\<close> and the deleted ones are filtered out here.
\<close>

definition loader_part_006 ::
  "faults \<Rightarrow> string option \<Rightarrow> db \<Rightarrow> (note_with list \<times> session_user) remix" where
  "loader_part_006 f session d =
     (case getLoggedInUser f session d of
        Inl e \<Rightarrow> Thrown_DbError
      | Inr None \<Rightarrow> Thrown_Redirect
      | Inr (Some user) \<Rightarrow>
          Json (filter (\<lambda>note. \<not> n_isDeleted (w_note note)) (getUserNotes f (su_id user) d),
                user) 200)"

text \<open>
  The home page (src/unnamed/part_003). Its "popular destinations" query:
  \<open>select location, count(*) from travel_notes where status = 'approved'
    group by location order by count(*) desc limit 6\<close>.
  One group per distinct \<open>location\<close> (\<open>NULL\<close> is a group of its own), larger groups
  first. The query has no tie-break: the order among groups of equal size, and with
  it the choice of the groups cut at the limit, is the database's. It is the
  parameter \<open>rank\<close>: among groups of equal size, a group of lower rank comes first.
\<close>

record destination =
  dest_location :: "string option"
  dest_count :: nat

definition destination_groups :: "db \<Rightarrow> destination list" where
  "destination_groups d =
     (let locations = map n_location (filter (\<lambda>n. n_status n = Approved) (travelNotes d))
      in map (\<lambda>l. \<lparr>dest_location = l, dest_count = count_list locations l\<rparr>)
             (remdups locations))"

definition popularDestinations :: "(string option \<Rightarrow> nat) \<Rightarrow> db \<Rightarrow> destination list" where
  "popularDestinations rank d =
     take 6 (sort_key (\<lambda>g. - int (dest_count g))
               (sort_key (\<lambda>g. rank (dest_location g)) (destination_groups d)))"

record index_data =
  ix_travelNotes :: "note_with list"
  ix_popularDestinations :: "destination list"
  ix_user :: "session_user option"

definition loader_part_003 ::
  "faults \<Rightarrow> (string option \<Rightarrow> nat) \<Rightarrow> string option \<Rightarrow> db \<Rightarrow> index_data remix" where
  "loader_part_003 f rank session d =
     (case getLoggedInUser f session d of
        Inl e \<Rightarrow> Thrown_DbError
      | Inr user \<Rightarrow>
          let publishedNotes = getPublishedNotes f (Some 20) None d in
          if f PopularDestinations_select then Thrown_DbError
          else Json \<lparr>ix_travelNotes = publishedNotes,
                     ix_popularDestinations = popularDestinations rank d,
                     ix_user = user\<rparr> 200)"

text \<open>
  The action of the review page (src/unnamed/part_004). \<open>requireAdminUser\<close> lives in
  app/services/admin.server.ts; the action is modelled from the point where it has
  returned a user, whose \<open>role\<close> string is the parameter \<open>role\<close>. The form fields are
  \<open>_action\<close>, \<open>noteId\<close> and \<open>rejectionReason\<close>; the four error messages are the
  constructors of \<open>action_error\<close>.
\<close>

record admin_form =
  af_action :: "string option"
  af_noteId :: "string option"
  af_rejectionReason :: "string option"

datatype action_error = NoteId_empty | RejectionReason_empty | No_permission | Unknown_action

datatype action_body = Body_success | Body_error action_error

definition action_part_004 ::
  "faults \<Rightarrow> timestamp \<Rightarrow> string \<Rightarrow> admin_form \<Rightarrow> db \<Rightarrow> action_body remix \<times> db" where
  "action_part_004 f now role form d =
     (case af_noteId form of
        None \<Rightarrow> (Json (Body_error NoteId_empty) 400, d)
      | Some noteId \<Rightarrow>
          if noteId = [] then (Json (Body_error NoteId_empty) 400, d)
          else if af_action form = Some ''approve'' then
            (case updateNoteStatus f now noteId Approved None d of
               (Inl e, d') \<Rightarrow> (Thrown_DbError, d')
             | (Inr r, d') \<Rightarrow> (Json Body_success 200, d'))
          else if af_action form = Some ''reject'' then
            (if \<not> truthy (af_rejectionReason form)
             then (Json (Body_error RejectionReason_empty) 400, d)
             else case updateNoteStatus f now noteId Rejected (af_rejectionReason form) d of
               (Inl e, d') \<Rightarrow> (Thrown_DbError, d')
             | (Inr r, d') \<Rightarrow> (Json Body_success 200, d'))
          else if af_action form = Some ''delete'' then
            (if role \<noteq> ''admin'' then (Json (Body_error No_permission) 403, d)
             else case adminDeleteNote f now noteId d of
               (Inl e, d') \<Rightarrow> (Thrown_DbError, d')
             | (Inr r, d') \<Rightarrow> (Json Body_success 200, d'))
          else (Json (Body_error Unknown_action) 400, d))"

section \<open>Sample data\<close>

text \<open>
  A small database used to run the operations: two ordinary users, an administrator
  and an auditor; a rejected note of the first user with three media rows, an approved
  note of the second user that was deleted, and an approved, visible note.
\<close>

definition id_alice :: uuid where "id_alice = ''a11ce000-0000-4000-8000-000000000001''"
definition id_bob :: uuid where "id_bob = ''b0b00000-0000-4000-8000-000000000002''"
definition id_carol :: uuid where "id_carol = ''ca501000-0000-4000-8000-000000000003''"
definition id_dave :: uuid where "id_dave = ''da7e0000-0000-4000-8000-000000000004''"
definition id_note1 :: uuid where "id_note1 = ''00000001-0000-4000-8000-00000000000a''"
definition id_note2 :: uuid where "id_note2 = ''00000002-0000-4000-8000-00000000000b''"
definition id_note3 :: uuid where "id_note3 = ''00000003-0000-4000-8000-00000000000c''"

text \<open>Two uuids that no row has: the one drawn for a new note, and a stray one.\<close>

definition id_new :: uuid where "id_new = ''00000009-0000-4000-8000-00000000000d''"
definition id_stray :: uuid where "id_stray = ''00000404-0000-4000-8000-00000000000e''"

definition alice :: user_row where
  "alice = \<lparr>u_id = id_alice, u_username = ''alice'', u_passwordHash = ''h1'',
            u_nickname = ''Alice'', u_avatarUrl = None, u_role = User,
            u_createdAt = 1, u_updatedAt = 1\<rparr>"

definition bob :: user_row where
  "bob = \<lparr>u_id = id_bob, u_username = ''bob'', u_passwordHash = ''h2'',
          u_nickname = ''Bob'', u_avatarUrl = Some ''/upload/bob.png'', u_role = User,
          u_createdAt = 2, u_updatedAt = 2\<rparr>"

definition carol :: user_row where
  "carol = \<lparr>u_id = id_carol, u_username = ''carol'', u_passwordHash = ''h3'',
            u_nickname = ''Carol'', u_avatarUrl = None, u_role = Admin,
            u_createdAt = 3, u_updatedAt = 3\<rparr>"

definition dave :: user_row where
  "dave = \<lparr>u_id = id_dave, u_username = ''dave'', u_passwordHash = ''h4'',
           u_nickname = ''Dave'', u_avatarUrl = None, u_role = Auditor,
           u_createdAt = 4, u_updatedAt = 4\<rparr>"

definition note_rejected :: travel_note where
  "note_rejected =
     \<lparr>n_id = id_note1, n_userId = id_alice, n_title = ''Lijiang'', n_content = ''Old town'',
      n_location = Some ''Yunnan'', n_status = Rejected,
      n_rejectionReason = Some ''blurry photos'', n_isDeleted = False,
      n_createdAt = 10, n_updatedAt = 20\<rparr>"

definition note_deleted :: travel_note where
  "note_deleted =
     \<lparr>n_id = id_note2, n_userId = id_bob, n_title = ''Paris'', n_content = ''Left bank'',
      n_location = Some ''Paris'', n_status = Approved,
      n_rejectionReason = None, n_isDeleted = True,
      n_createdAt = 11, n_updatedAt = 21\<rparr>"

definition note_public :: travel_note where
  "note_public =
     \<lparr>n_id = id_note3, n_userId = id_bob, n_title = ''Kyoto'', n_content = ''Temples'',
      n_location = Some ''Kyoto'', n_status = Approved,
      n_rejectionReason = None, n_isDeleted = False,
      n_createdAt = 12, n_updatedAt = 22\<rparr>"

definition media_a :: media_input where
  "media_a = \<lparr>mi_type = Image_media, mi_url = ''/upload/a.jpg'', mi_order = Some 2\<rparr>"

definition media_b :: media_input where
  "media_b = \<lparr>mi_type = Image_media, mi_url = ''/upload/b.jpg'', mi_order = Some 0\<rparr>"

definition media_c :: media_input where
  "media_c = \<lparr>mi_type = Video_media, mi_url = ''/upload/c.mp4'', mi_order = Some 1\<rparr>"

definition db_users :: db where
  "db_users = \<lparr>users = [alice, bob, carol, dave], travelNotes = [], noteMedia = [],
               noteMedia_seq = 1\<rparr>"

definition db_sample :: db where
  "db_sample =
     \<lparr>users = [alice, bob, carol, dave],
      travelNotes = [note_rejected, note_deleted, note_public],
      noteMedia = mediaRows id_note1 10 1 [media_a, media_b, media_c],
      noteMedia_seq = 4\<rparr>"

definition create_abc :: create_input where
  "create_abc =
     \<lparr>ci_userId = id_alice, ci_title = ''Lijiang'', ci_content = ''Old town'',
      ci_location = Some ''Yunnan'', ci_media = [media_a, media_b, media_c]\<rparr>"

text \<open>The \<open>url\<close>s of the media of a fetched note, in the order they are returned.\<close>

definition media_urls :: "note_with option \<Rightarrow> string list" where
  "media_urls r = (case r of None \<Rightarrow> [] | Some v \<Rightarrow> map m_url (w_media v))"


definition edit_new_location :: update_input where
  "edit_new_location =
     \<lparr>up_id = id_note1, up_userId = id_alice, up_title = ''Lijiang at night'',
      up_content = ''Lanterns'', up_location = Some ''Dali'', up_media = [media_b]\<rparr>"

definition reject_no_reason :: admin_form where
  "reject_no_reason =
     \<lparr>af_action = Some ''reject'', af_noteId = Some id_note3, af_rejectionReason = Some []\<rparr>"

definition reject_with_reason :: admin_form where
  "reject_with_reason =
     \<lparr>af_action = Some ''reject'', af_noteId = Some id_note3,
      af_rejectionReason = Some ''Off topic''\<rparr>"

text \<open>The statement \<open>s\<close> is rejected, every other one succeeds.\<close>

definition only :: "stmt \<Rightarrow> faults" where
  "only s = (\<lambda>t. t = s)"

section \<open>Observations\<close>

text \<open>
  The row a fetch by id sees (none for a string that is not a uuid), and the ids shown
  by each listing.
\<close>

definition note_by_id :: "string \<Rightarrow> db \<Rightarrow> travel_note option" where
  "note_by_id ident d =
     (case uuid_in ident of
        None \<Rightarrow> None
      | Some u \<Rightarrow> find (\<lambda>n. n_id n = u) (travelNotes d))"

definition published_ids :: "faults \<Rightarrow> nat option \<Rightarrow> nat option \<Rightarrow> db \<Rightarrow> uuid list" where
  "published_ids f limit offset d = map (\<lambda>v. n_id (w_note v)) (getPublishedNotes f limit offset d)"

definition review_ids ::
  "faults \<Rightarrow> (string \<Rightarrow> string \<Rightarrow> bool) \<Rightarrow> review_query \<Rightarrow> db \<Rightarrow> uuid list" where
  "review_ids f like q d =
     (case getNotesForReview f like q d of Inl e \<Rightarrow> [] | Inr res \<Rightarrow> map r_id (rr_notes res))"

definition my_notes_ids :: "faults \<Rightarrow> string option \<Rightarrow> db \<Rightarrow> uuid list" where
  "my_notes_ids f session d =
     (case loader_part_006 f session d of
        Json body st \<Rightarrow> map (\<lambda>v. n_id (w_note v)) (fst body)
      | Thrown_Response st \<Rightarrow> []
      | Thrown_Redirect \<Rightarrow> []
      | Thrown_DbError \<Rightarrow> [])"

definition user_notes_ids :: "faults \<Rightarrow> string \<Rightarrow> db \<Rightarrow> uuid list" where
  "user_notes_ids f userId d = map (\<lambda>v. n_id (w_note v)) (getUserNotes f userId d)"

text \<open>The invariant of the data model: a rejection reason is stored exactly on rejected notes.\<close>

definition reason_iff_rejected :: "travel_note \<Rightarrow> bool" where
  "reason_iff_rejected n = ((n_rejectionReason n \<noteq> None) = (n_status n = Rejected))"

text \<open>A search pattern matcher for running the review listing: every value matches.\<close>

definition like_any :: "string \<Rightarrow> string \<Rightarrow> bool" where
  "like_any v p = True"

definition review_all :: review_query where
  "review_all = \<lparr>rq_status = None, rq_page = None, rq_limit = None, rq_search = None\<rparr>"

section \<open>Properties\<close>

lemma find_append_fresh:
  "\<forall>x \<in> set xs. \<not> P x \<Longrightarrow> find P (xs @ ys) = find P ys"
  by (induction xs) auto

lemma find_map_same_id:
  assumes "\<And>n. n_id (g n) = n_id n"
  shows "find (\<lambda>n. n_id n = k) (map (\<lambda>n. if n_id n = k then g n else n) xs)
         = map_option g (find (\<lambda>n. n_id n = k) xs)"
  using assms by (induction xs) auto


lemma travelNotes_insert_media [simp]:
  "travelNotes (insert_media k now ms d) = travelNotes d"
  by (simp add: insert_media_def)

lemma same_id_same_row:
  "distinct (map n_id xs) \<Longrightarrow> x \<in> set xs \<Longrightarrow> y \<in> set xs \<Longrightarrow> n_id x = n_id y \<Longrightarrow> x = y"
  by (meson distinct_map inj_onD)

lemma set_newest_first [simp]: "set (newest_first ns) = set ns"
  by (simp add: newest_first_def)

lemma getNoteById_eq:
  "getNoteById f ident d =
     (if f GetNoteById_findFirst then None
      else map_option (with_media_user d) (note_by_id ident d))"
  by (simp add: getNoteById_def note_by_id_def split: option.splits)

subsection \<open>Editing a note\<close>




subsection \<open>Listings and deleted notes\<close>

lemma published_rows:
  "v \<in> set (getPublishedNotes f limit offset d) \<Longrightarrow>
     w_note v \<in> set (travelNotes d) \<and> \<not> n_isDeleted (w_note v)"
  by (auto simp: getPublishedNotes_def with_media_user_def split: if_splits
           dest!: in_set_takeD in_set_dropD)

lemma whereConditions_not_deleted: "whereConditions like q d n \<Longrightarrow> \<not> n_isDeleted n"
  by (simp add: whereConditions_def)

lemma review_rows:
  assumes "getNotesForReview f like q d = Inr res" and "r \<in> set (rr_notes res)"
  shows "\<exists>n \<in> set (travelNotes d). r = review_row_of d n \<and> \<not> n_isDeleted n"
proof -
  define page where "page = (case rq_page q of None \<Rightarrow> 1 | Some p \<Rightarrow> p)"
  define limit where "limit = (case rq_limit q of None \<Rightarrow> 10 | Some l \<Rightarrow> l)"
  from assms(1) have "rr_notes res = map (review_row_of d)
      (take limit (drop (nat ((page - 1) * int limit))
         (newest_first (filter (whereConditions like q d) (travelNotes d)))))"
    by (auto simp: getNotesForReview_def Let_def page_def limit_def split: if_splits)
  with assms(2) obtain n where
    "n \<in> set (filter (whereConditions like q d) (travelNotes d))" "r = review_row_of d n"
    by (auto dest!: in_set_takeD in_set_dropD)
  then show ?thesis
    using whereConditions_not_deleted by auto
qed

lemma user_notes_rows:
  "v \<in> set (getUserNotes f userId d) \<Longrightarrow> w_note v \<in> set (travelNotes d)"
  by (auto simp: getUserNotes_def with_media_user_def split: if_splits option.splits)

lemma my_notes_rows:
  assumes "loader_part_006 f session d = Json (ns, u) st" and "v \<in> set ns"
  shows "w_note v \<in> set (travelNotes d) \<and> \<not> n_isDeleted (w_note v)"
proof -
  from assms(1) have "ns = filter (\<lambda>note. \<not> n_isDeleted (w_note note)) (getUserNotes f (su_id u) d)"
    by (auto simp: loader_part_006_def split: sum.splits option.splits)
  with assms(2) show ?thesis
    using user_notes_rows by auto
qed

lemma getUserNotes_all_of_owner:
  assumes "\<not> f GetUserNotes_findMany" and "uuid_in userId = Some u"
  shows "set (map w_note (getUserNotes f userId d)) = {n \<in> set (travelNotes d). n_userId n = u}"
  using assms by (auto simp: getUserNotes_def with_media_user_def)

text \<open>
  C2 (as the code has it). In a table with unique ids, a note with \<open>isDeleted = true\<close> is
  shown neither by \<open>getPublishedNotes\<close>, nor by \<open>getNotesForReview\<close>, nor by the loader
  of the "my notes" page, whatever its status, the paging, the filters and the
  database faults. (The filter of the third listing is in the loader, not in
  \<open>getUserNotes\<close>.)
\<close>

theorem deleted_note_not_listed:
  assumes dist: "distinct (map n_id (travelNotes d))"
    and mem: "n \<in> set (travelNotes d)"
    and del: "n_isDeleted n"
  shows "n_id n \<notin> set (published_ids f limit offset d)
       \<and> n_id n \<notin> set (review_ids f like q d)
       \<and> n_id n \<notin> set (my_notes_ids f session d)"
proof (intro conjI)
  show "n_id n \<notin> set (published_ids f limit offset d)"
  proof
    assume "n_id n \<in> set (published_ids f limit offset d)"
    then obtain v where
      v: "v \<in> set (getPublishedNotes f limit offset d)" "n_id (w_note v) = n_id n"
      by (auto simp: published_ids_def)
    from published_rows[OF v(1)]
    have "w_note v \<in> set (travelNotes d)" "\<not> n_isDeleted (w_note v)"
      by simp_all
    with same_id_same_row[OF dist _ mem v(2)] del show False by simp
  qed
next
  show "n_id n \<notin> set (review_ids f like q d)"
  proof
    assume a: "n_id n \<in> set (review_ids f like q d)"
    then obtain res where res: "getNotesForReview f like q d = Inr res"
      by (cases "getNotesForReview f like q d") (auto simp: review_ids_def)
    with a obtain r where r: "r \<in> set (rr_notes res)" "r_id r = n_id n"
      by (auto simp: review_ids_def)
    from review_rows[OF res r(1)] obtain m where
      m: "m \<in> set (travelNotes d)" "r = review_row_of d m" "\<not> n_isDeleted m" by blast
    from m(2) r(2) have "n_id m = n_id n" by (simp add: review_row_of_def)
    with same_id_same_row[OF dist m(1) mem] m(3) del show False by simp
  qed
next
  show "n_id n \<notin> set (my_notes_ids f session d)"
  proof
    assume a: "n_id n \<in> set (my_notes_ids f session d)"
    then obtain ns u st where l: "loader_part_006 f session d = Json (ns, u) st"
      by (cases "loader_part_006 f session d") (auto simp: my_notes_ids_def)
    with a obtain v where v: "v \<in> set ns" "n_id (w_note v) = n_id n"
      by (auto simp: my_notes_ids_def)
    from my_notes_rows[OF l v(1)]
    have "w_note v \<in> set (travelNotes d)" "\<not> n_isDeleted (w_note v)"
      by simp_all
    with same_id_same_row[OF dist _ mem v(2)] del show False by simp
  qed
qed

text \<open>
  On the sample database the deleted note of Bob is in none of the three listings,
  which are not empty.
\<close>

theorem deleted_note_not_listed_witness:
  "distinct (map n_id (travelNotes db_sample))
   \<and> note_deleted \<in> set (travelNotes db_sample)
   \<and> n_isDeleted note_deleted
   \<and> n_id note_deleted \<notin> set (published_ids no_faults None None db_sample)
   \<and> n_id note_deleted \<notin> set (review_ids no_faults like_any review_all db_sample)
   \<and> n_id note_deleted \<notin> set (my_notes_ids no_faults (Some id_bob) db_sample)
   \<and> published_ids no_faults None None db_sample = [id_note3]
   \<and> review_ids no_faults like_any review_all db_sample = [id_note3, id_note1]
   \<and> my_notes_ids no_faults (Some id_bob) db_sample = [id_note3]"
proof -
  have h1: "distinct (map n_id (travelNotes db_sample))" by code_simp
  have h2: "note_deleted \<in> set (travelNotes db_sample)" by (simp add: db_sample_def)
  have h3: "n_isDeleted note_deleted" by (simp add: note_deleted_def)
  have e1: "published_ids no_faults None None db_sample = [id_note3]" by code_simp
  have e2: "review_ids no_faults like_any review_all db_sample = [id_note3, id_note1]"
    by code_simp
  have e3: "my_notes_ids no_faults (Some id_bob) db_sample = [id_note3]" by code_simp
  from deleted_note_not_listed[OF h1 h2 h3, of no_faults None None like_any review_all
      "Some id_bob"] h1 h2 h3 e1 e2 e3
  show ?thesis by simp
qed

text \<open>
  Against C2 as stated: \<open>getUserNotes\<close> itself returns the deleted note of Bob.
\<close>

theorem getUserNotes_lists_deleted:
  "n_isDeleted note_deleted \<and> note_deleted \<in> set (travelNotes db_sample)
   \<and> n_id note_deleted \<in> set (user_notes_ids no_faults (n_userId note_deleted) db_sample)"
  by code_simp

subsection \<open>Creating a note\<close>

text \<open>
  C7. Whenever \<open>createNote\<close> returns a note, for a new id that is a uuid as the
  database prints it, the row that a fetch by that id sees in the resulting database
  is the returned note, and its status is \<open>pending\<close>; the input of \<open>createNote\<close> has no
  status field.
\<close>

theorem createNote_status_pending:
  assumes "createNote f now newId i d = (Some v, d')" and "uuid_in newId = Some newId"
  shows "note_by_id newId d' = Some (w_note v) \<and> n_status (w_note v) = Pending"
proof -
  from assms(1) obtain userId where
    fresh: "newId \<notin> set (map n_id (travelNotes d))" and
    tn: "travelNotes d' = travelNotes d @ [new_note newId userId now i]" and
    g: "getNoteById f newId d' = Some v"
    by (auto simp: createNote_def Let_def split: if_splits option.splits)
  have "\<forall>x \<in> set (travelNotes d). \<not> (n_id x = newId)"
    using fresh by auto
  then have "find (\<lambda>x. n_id x = newId) (travelNotes d') = Some (new_note newId userId now i)"
    by (simp add: tn find_append_fresh new_note_def)
  then have row: "note_by_id newId d' = Some (new_note newId userId now i)"
    by (simp add: note_by_id_def assms(2))
  with g have "w_note v = new_note newId userId now i"
    by (auto simp: getNoteById_eq with_media_user_def split: if_splits)
  with row show ?thesis by (simp add: new_note_def)
qed

text \<open>
  Alice creates a note in the database that holds only users: the row stored under the
  new id is the returned note, and it is pending.
\<close>

theorem createNote_status_pending_witness:
  "uuid_in id_new = Some id_new
   \<and> map_option w_note (fst (createNote no_faults 100 id_new create_abc db_users))
       = note_by_id id_new (snd (createNote no_faults 100 id_new create_abc db_users))
   \<and> map_option n_status
       (note_by_id id_new (snd (createNote no_faults 100 id_new create_abc db_users)))
       = Some Pending"
proof -
  have u: "uuid_in id_new = Some id_new" by code_simp
  have "fst (createNote no_faults 100 id_new create_abc db_users) \<noteq> None"
    by code_simp
  then obtain v d' where h: "createNote no_faults 100 id_new create_abc db_users = (Some v, d')"
    by (cases "createNote no_faults 100 id_new create_abc db_users") auto
  from createNote_status_pending[OF h u] h u show ?thesis by simp
qed

lemma createNote_media_rejected:
  assumes "uuid_in (ci_userId i) = Some userId" and "\<not> f CreateNote_insertNote"
    and "newId \<notin> set (map n_id (travelNotes d))" and "userId \<in> set (map u_id (users d))"
    and "ci_media i \<noteq> []" and "f CreateNote_insertMedia"
  shows "createNote f now newId i d
           = (None, d\<lparr>travelNotes := travelNotes d @ [new_note newId userId now i]\<rparr>)"
  using assms by (simp add: createNote_def Let_def)

text \<open>
  C9, run on the code. Alice creates a note with three media entries and the database
  rejects the insert of the media rows. \<open>createNote\<close> returns \<open>null\<close>, and the note row,
  committed by the first statement, stays in the table without any media row (so it
  is for every input, by the lemma above).
\<close>

theorem createNote_note_without_media:
  "fst (createNote (only CreateNote_insertMedia) 100 id_new create_abc db_users) = None
   \<and> travelNotes (snd (createNote (only CreateNote_insertMedia) 100 id_new create_abc db_users))
       = [new_note id_new id_alice 100 create_abc]
   \<and> noteMedia (snd (createNote (only CreateNote_insertMedia) 100 id_new create_abc db_users)) = []
   \<and> length (ci_media create_abc) = 3"
  by code_simp

subsection \<open>Media order\<close>

lemma getNoteDetails_media_sorted:
  "getNoteDetails f noteId d = Inr r \<Longrightarrow> sorted (map m_order (nd_media r))"
  by (auto simp: getNoteDetails_def split: if_splits option.splits)

text \<open>
  C3, run on the code. A note is created with the media list
  \<open>[a (order 2), b (order 0), c (order 1)]\<close>. Both the note returned by \<open>createNote\<close>
  and a later \<open>getNoteById\<close> list the media as \<open>a, b, c\<close>, the order of insertion, not
  as \<open>b, c, a\<close>; only \<open>getNoteDetails\<close> sorts by \<open>order\<close>.
\<close>

theorem createNote_media_in_insertion_order:
  "map mi_order (ci_media create_abc) = [Some 2, Some 0, Some 1]
   \<and> media_urls (fst (createNote no_faults 100 id_new create_abc db_users))
     = [''/upload/a.jpg'', ''/upload/b.jpg'', ''/upload/c.mp4'']
   \<and> media_urls (getNoteById no_faults id_new
                    (snd (createNote no_faults 100 id_new create_abc db_users)))
     = [''/upload/a.jpg'', ''/upload/b.jpg'', ''/upload/c.mp4'']"
  by code_simp

subsection \<open>Rejection reasons\<close>

lemma reason_iff_rejected_new_note: "reason_iff_rejected (new_note newId userId now i)"
  by (simp add: reason_iff_rejected_def new_note_def)

lemma list_all_map_if:
  "list_all P xs \<Longrightarrow> (\<And>x. P x \<Longrightarrow> P (g x)) \<Longrightarrow> list_all P (map (\<lambda>n. if c n then g n else n) xs)"
  by (induction xs) auto

lemma reason_invariant_createNote:
  "list_all reason_iff_rejected (travelNotes d) \<Longrightarrow>
     list_all reason_iff_rejected (travelNotes (snd (createNote f now newId i d)))"
  by (simp add: createNote_def Let_def reason_iff_rejected_new_note split: option.splits)

lemma reason_invariant_deleteNote:
  "list_all reason_iff_rejected (travelNotes d) \<Longrightarrow>
     list_all reason_iff_rejected (travelNotes (snd (deleteNote f now ident userId d)))"
  by (auto simp: deleteNote_def reason_iff_rejected_def split: option.splits
           intro!: list_all_map_if)

lemma reason_invariant_adminDeleteNote:
  "list_all reason_iff_rejected (travelNotes d) \<Longrightarrow>
     list_all reason_iff_rejected (travelNotes (snd (adminDeleteNote f now noteId d)))"
  by (auto simp: adminDeleteNote_def reason_iff_rejected_def split: option.splits
           intro!: list_all_map_if)

lemma reason_invariant_updateNoteStatus:
  assumes "list_all reason_iff_rejected (travelNotes d)"
    and "status = Rejected \<Longrightarrow> rejectionReason \<noteq> None"
  shows "list_all reason_iff_rejected
           (travelNotes (snd (updateNoteStatus f now noteId status rejectionReason d)))"
  using assms
  by (auto simp: updateNoteStatus_def reason_iff_rejected_def split: option.splits
           intro!: list_all_map_if)

lemma snd_case_outcome:
  "snd (case p of (Inl e, d') \<Rightarrow> (A, d') | (Inr r, d') \<Rightarrow> (B, d')) = snd p"
  by (cases p; cases "fst p") auto

lemma reason_invariant_action:
  assumes "list_all reason_iff_rejected (travelNotes d)"
  shows "list_all reason_iff_rejected (travelNotes (snd (action_part_004 f now role form d)))"
proof -
  have t: "truthy (af_rejectionReason form) \<Longrightarrow> af_rejectionReason form \<noteq> None"
    by (cases "af_rejectionReason form") (simp_all add: truthy_def)
  show ?thesis
  proof (cases "af_noteId form")
    case None
    with assms show ?thesis by (simp add: action_part_004_def)
  next
    case (Some noteId)
    have a: "list_all reason_iff_rejected
               (travelNotes (snd (updateNoteStatus f now noteId Approved None d)))"
      by (rule reason_invariant_updateNoteStatus[OF assms]) simp
    have r: "truthy (af_rejectionReason form) \<Longrightarrow> list_all reason_iff_rejected
               (travelNotes (snd (updateNoteStatus f now noteId Rejected
                                    (af_rejectionReason form) d)))"
      by (rule reason_invariant_updateNoteStatus[OF assms]) (simp add: t)
    have x: "list_all reason_iff_rejected (travelNotes (snd (adminDeleteNote f now noteId d)))"
      by (rule reason_invariant_adminDeleteNote[OF assms])
    from Some assms a r x show ?thesis
      by (simp add: action_part_004_def snd_case_outcome)
  qed
qed

text \<open>
  C4, run on the code. In the sample database every note has a rejection reason
  exactly when it is rejected. After the owner edits the rejected note, the note is
  \<open>pending\<close> and still carries its rejection reason: \<open>updateNote\<close> does not keep the
  invariant that the other operations keep (the five lemmas above).
\<close>

theorem updateNote_breaks_reason_invariant:
  "list_all reason_iff_rejected (travelNotes db_sample)
   \<and> fst (updateNote no_faults 200 edit_new_location db_sample)
       = UpdNote (getNoteById no_faults id_note1
                    (snd (updateNote no_faults 200 edit_new_location db_sample)))
   \<and> \<not> list_all reason_iff_rejected
         (travelNotes (snd (updateNote no_faults 200 edit_new_location db_sample)))
   \<and> map_option n_status
       (note_by_id id_note1 (snd (updateNote no_faults 200 edit_new_location db_sample)))
       = Some Pending
   \<and> map_option n_rejectionReason
       (note_by_id id_note1 (snd (updateNote no_faults 200 edit_new_location db_sample)))
       = Some (Some ''blurry photos'')"
  by code_simp

subsection \<open>Rejecting a note\<close>

lemma updateNoteStatus_rejected_row:
  assumes "\<not> f UpdateNoteStatus_update" and "note_by_id noteId d = Some n"
  shows "note_by_id noteId (snd (updateNoteStatus f now noteId Rejected (Some r) d))
           = Some (n\<lparr>n_status := Rejected, n_rejectionReason := Some r, n_updatedAt := now\<rparr>)"
proof -
  from assms(2) obtain k where k: "uuid_in noteId = Some k"
    and row: "find (\<lambda>n. n_id n = k) (travelNotes d) = Some n"
    by (auto simp: note_by_id_def split: option.splits)
  show ?thesis
    using assms(1) row
    by (simp add: note_by_id_def updateNoteStatus_def k find_map_same_id)
qed

text \<open>
  C5. The review action with \<open>_action = reject\<close> on a given note id: without a
  rejection reason (absent or empty) it answers the error "rejection reason must not
  be empty" with status 400 and leaves the database as it was; with a non-empty
  reason, on an existing note and a database that accepts the statements, it answers
  success, and \<open>getNoteById\<close> then returns the note as rejected with exactly that
  reason.
\<close>

theorem reject_requires_reason:
  assumes "af_action form = Some ''reject''" and "af_noteId form = Some noteId"
    and "noteId \<noteq> []"
  shows "(\<not> truthy (af_rejectionReason form) \<longrightarrow>
            action_part_004 f now role form d = (Json (Body_error RejectionReason_empty) 400, d))
       \<and> (\<forall>r n. af_rejectionReason form = Some r \<and> r \<noteq> [] \<and> note_by_id noteId d = Some n
                \<and> \<not> f UpdateNoteStatus_update \<and> \<not> f GetNoteById_findFirst \<longrightarrow>
            fst (action_part_004 f now role form d) = Json Body_success 200
            \<and> map_option w_note (getNoteById f noteId (snd (action_part_004 f now role form d)))
                = Some (n\<lparr>n_status := Rejected, n_rejectionReason := Some r,
                          n_updatedAt := now\<rparr>))"
proof (intro conjI impI allI)
  assume "\<not> truthy (af_rejectionReason form)"
  with assms
  show "action_part_004 f now role form d = (Json (Body_error RejectionReason_empty) 400, d)"
    by (simp add: action_part_004_def)
next
  fix r n
  assume a: "af_rejectionReason form = Some r \<and> r \<noteq> [] \<and> note_by_id noteId d = Some n
                \<and> \<not> f UpdateNoteStatus_update \<and> \<not> f GetNoteById_findFirst"
  then have t: "truthy (af_rejectionReason form)" by (simp add: truthy_def)
  from a have nf: "\<not> f UpdateNoteStatus_update" by simp
  from a obtain k where k: "uuid_in noteId = Some k"
    by (auto simp: note_by_id_def split: option.splits)
  have act: "action_part_004 f now role form d
        = (Json Body_success 200, snd (updateNoteStatus f now noteId Rejected (Some r) d))"
    using assms t a k by (simp add: action_part_004_def updateNoteStatus_def)
  show "fst (action_part_004 f now role form d) = Json Body_success 200"
    by (simp add: act)
  have "note_by_id noteId (snd (updateNoteStatus f now noteId Rejected (Some r) d))
           = Some (n\<lparr>n_status := Rejected, n_rejectionReason := Some r, n_updatedAt := now\<rparr>)"
    using updateNoteStatus_rejected_row[of f noteId d n now r] nf a by simp
  with a
  show "map_option w_note (getNoteById f noteId (snd (action_part_004 f now role form d)))
          = Some (n\<lparr>n_status := Rejected, n_rejectionReason := Some r, n_updatedAt := now\<rparr>)"
    by (simp add: act getNoteById_eq with_media_user_def)
qed

text \<open>
  An auditor rejects the public sample note: with an empty reason nothing changes,
  with the reason \<open>Off topic\<close> the note is read back as rejected for that reason.
\<close>

theorem reject_requires_reason_witness:
  "action_part_004 no_faults 300 ''auditor'' reject_no_reason db_sample
     = (Json (Body_error RejectionReason_empty) 400, db_sample)
   \<and> fst (action_part_004 no_faults 300 ''auditor'' reject_with_reason db_sample)
     = Json Body_success 200
   \<and> map_option (\<lambda>v. (n_status (w_note v), n_rejectionReason (w_note v)))
       (getNoteById no_faults id_note3
          (snd (action_part_004 no_faults 300 ''auditor'' reject_with_reason db_sample)))
     = Some (Rejected, Some ''Off topic'')"
proof -
  have a1: "af_action reject_no_reason = Some ''reject''"
      "af_noteId reject_no_reason = Some id_note3"
    and a2: "af_action reject_with_reason = Some ''reject''"
      "af_noteId reject_with_reason = Some id_note3"
    and ne: "id_note3 \<noteq> []"
    by (simp_all add: reject_no_reason_def reject_with_reason_def id_note3_def)
  have f1: "\<not> truthy (af_rejectionReason reject_no_reason)" by code_simp
  have f2: "af_rejectionReason reject_with_reason = Some ''Off topic''"
    by (simp add: reject_with_reason_def)
  have f3: "note_by_id id_note3 db_sample = Some note_public" by code_simp
  have f4: "\<not> no_faults UpdateNoteStatus_update" "\<not> no_faults GetNoteById_findFirst"
    by (simp_all add: no_faults_def)
  from reject_requires_reason[OF a1 ne, of no_faults 300 "''auditor''" db_sample] f1
  have r1: "action_part_004 no_faults 300 ''auditor'' reject_no_reason db_sample
     = (Json (Body_error RejectionReason_empty) 400, db_sample)" by simp
  from reject_requires_reason[OF a2 ne, of no_faults 300 "''auditor''" db_sample] f2 f3 f4
  have r2: "fst (action_part_004 no_faults 300 ''auditor'' reject_with_reason db_sample)
              = Json Body_success 200
            \<and> map_option w_note (getNoteById no_faults id_note3
                (snd (action_part_004 no_faults 300 ''auditor'' reject_with_reason db_sample)))
                = Some (note_public\<lparr>n_status := Rejected, n_rejectionReason := Some ''Off topic'',
                                     n_updatedAt := 300\<rparr>)"
    by simp
  then have "map_option (\<lambda>v. (n_status (w_note v), n_rejectionReason (w_note v)))
       (getNoteById no_faults id_note3
          (snd (action_part_004 no_faults 300 ''auditor'' reject_with_reason db_sample)))
     = Some (Rejected, Some ''Off topic'')"
    by (auto simp: map_option_case split: option.splits)
  with r1 r2 show ?thesis by simp
qed

subsection \<open>Who may read a note\<close>

text \<open>
  C6. The loader of the note page, for an existing note that is not approved, with
  the note read without a database fault: an anonymous caller and a logged-in caller
  who is neither the owner nor an admin get the response 403; the owner and an admin
  get the note.
\<close>

theorem note_visibility:
  assumes "note_by_id i d = Some n" and "i \<noteq> []" and "n_status n \<noteq> Approved"
    and "\<not> f GetNoteById_findFirst" and "getLoggedInUser f session d = Inr caller"
  shows "((caller = None \<or> (\<exists>u. caller = Some u \<and> su_id u \<noteq> n_userId n \<and> su_role u \<noteq> Admin)) \<longrightarrow>
            loader_note_id f session (Some i) d = Thrown_Response 403)
       \<and> ((\<exists>u. caller = Some u \<and> (su_id u = n_userId n \<or> su_role u = Admin)) \<longrightarrow>
            loader_note_id f session (Some i) d
              = Json (with_media_user d n, isAuthor caller n) 200)"
  using assms
  by (auto simp: loader_note_id_def getNoteById_eq may_not_view_def with_media_user_def)

text \<open>
  The rejected sample note of Alice: refused to an anonymous caller, to Bob and to the
  auditor Dave; shown to Alice and to the admin Carol.
\<close>

theorem note_visibility_witness:
  "note_by_id id_note1 db_sample = Some note_rejected \<and> n_status note_rejected = Rejected
   \<and> loader_note_id no_faults None (Some id_note1) db_sample = Thrown_Response 403
   \<and> loader_note_id no_faults (Some id_bob) (Some id_note1) db_sample = Thrown_Response 403
   \<and> loader_note_id no_faults (Some id_dave) (Some id_note1) db_sample = Thrown_Response 403
   \<and> loader_note_id no_faults (Some id_alice) (Some id_note1) db_sample
       = Json (with_media_user db_sample note_rejected, True) 200
   \<and> loader_note_id no_faults (Some id_carol) (Some id_note1) db_sample
       = Json (with_media_user db_sample note_rejected, False) 200"
proof -
  have h1: "note_by_id id_note1 db_sample = Some note_rejected" by code_simp
  have h2: "id_note1 \<noteq> []" by (simp add: id_note1_def)
  have h3: "n_status note_rejected \<noteq> Approved" and h3': "n_status note_rejected = Rejected"
    by (simp_all add: note_rejected_def)
  have h4: "\<not> no_faults GetNoteById_findFirst" by (simp add: no_faults_def)
  have u0: "getLoggedInUser no_faults None db_sample = Inr None" by code_simp
  have u1: "getLoggedInUser no_faults (Some id_bob) db_sample
              = Inr (Some (userWithoutPassword bob))"
    by code_simp
  have u2: "getLoggedInUser no_faults (Some id_dave) db_sample
              = Inr (Some (userWithoutPassword dave))"
    by code_simp
  have u3: "getLoggedInUser no_faults (Some id_alice) db_sample
              = Inr (Some (userWithoutPassword alice))"
    by code_simp
  have u4: "getLoggedInUser no_faults (Some id_carol) db_sample
              = Inr (Some (userWithoutPassword carol))"
    by code_simp
  have p: "su_id (userWithoutPassword bob) \<noteq> n_userId note_rejected"
      "su_role (userWithoutPassword bob) \<noteq> Admin"
      "su_id (userWithoutPassword dave) \<noteq> n_userId note_rejected"
      "su_role (userWithoutPassword dave) \<noteq> Admin"
      "su_id (userWithoutPassword alice) = n_userId note_rejected"
      "su_id (userWithoutPassword carol) \<noteq> n_userId note_rejected"
      "su_role (userWithoutPassword carol) = Admin"
    by code_simp+
  from note_visibility[OF h1 h2 h3 h4 u0] note_visibility[OF h1 h2 h3 h4 u1]
    note_visibility[OF h1 h2 h3 h4 u2] note_visibility[OF h1 h2 h3 h4 u3]
    note_visibility[OF h1 h2 h3 h4 u4] p h1 h3'
  show ?thesis by (simp add: isAuthor_def)
qed

subsection \<open>Popular destinations\<close>

lemma destination_groups_sample:
  "destination_groups db_sample
     = [\<lparr>dest_location = Some ''Paris'', dest_count = 1\<rparr>,
        \<lparr>dest_location = Some ''Kyoto'', dest_count = 1\<rparr>]"
  by code_simp

text \<open>
  C8, run on the code. The sample database has two approved notes, the one located in
  Paris being deleted. The aggregation of the home page counts the deleted note:
  whatever order the database gives to groups of equal size, it answers the two groups
  Paris and Kyoto with one note each, where the approved notes that are not deleted
  are located in Kyoto only.
\<close>

theorem popularDestinations_counts_deleted:
  "set (popularDestinations rank db_sample)
     = {\<lparr>dest_location = Some ''Paris'', dest_count = 1\<rparr>,
        \<lparr>dest_location = Some ''Kyoto'', dest_count = 1\<rparr>}
   \<and> length (popularDestinations rank db_sample) = 2
   \<and> map n_location
       (filter (\<lambda>n. n_status n = Approved \<and> \<not> n_isDeleted n) (travelNotes db_sample))
     = [Some ''Kyoto'']"
proof -
  have kyoto: "map n_location
       (filter (\<lambda>n. n_status n = Approved \<and> \<not> n_isDeleted n) (travelNotes db_sample))
     = [Some ''Kyoto'']"
    by code_simp
  have len: "length (sort_key (\<lambda>g. - int (dest_count g))
               (sort_key (\<lambda>g. rank (dest_location g)) (destination_groups db_sample))) = 2"
    by (simp add: destination_groups_sample)
  then have all: "popularDestinations rank db_sample
      = sort_key (\<lambda>g. - int (dest_count g))
          (sort_key (\<lambda>g. rank (dest_location g)) (destination_groups db_sample))"
    by (simp add: popularDestinations_def)
  have "set (popularDestinations rank db_sample) = set (destination_groups db_sample)"
    by (simp add: all)
  with len kyoto show ?thesis
    by (simp add: all destination_groups_sample)
qed

subsection \<open>Administrative updates\<close>

lemma map_no_match:
  "k \<notin> set (map n_id xs) \<Longrightarrow> map (\<lambda>n. if n_id n = k then g n else n) xs = xs"
  by (induction xs) auto

text \<open>
  C10 (as the code has it). When the database accepts the statement,
  \<open>updateNoteStatus\<close> and \<open>adminDeleteNote\<close> answer \<open>{ success: true }\<close> for every note
  id that is a uuid, and for a uuid that no note has they answer the same and change
  nothing. For an id that is not a uuid the statement is rejected: both functions
  throw and change nothing.
\<close>

theorem admin_updates_succeed_on_uuid:
  assumes "\<not> f UpdateNoteStatus_update" and "\<not> f AdminDeleteNote_update"
  shows "(\<forall>k. uuid_in noteId = Some k \<longrightarrow>
            fst (updateNoteStatus f now noteId status rejectionReason d) = Inr Success_true
            \<and> fst (adminDeleteNote f now noteId d) = Inr Success_true
            \<and> (k \<notin> set (map n_id (travelNotes d)) \<longrightarrow>
                 snd (updateNoteStatus f now noteId status rejectionReason d) = d
                 \<and> snd (adminDeleteNote f now noteId d) = d))
       \<and> (uuid_in noteId = None \<longrightarrow>
            updateNoteStatus f now noteId status rejectionReason d = (Inl DbError, d)
            \<and> adminDeleteNote f now noteId d = (Inl DbError, d))"
  using assms by (simp add: updateNoteStatus_def adminDeleteNote_def map_no_match)

text \<open>
  On the sample database: a uuid that no note has, the id of the rejected note, and
  the string \<open>not-a-uuid\<close>.
\<close>

theorem admin_updates_succeed_on_uuid_witness:
  "uuid_in id_stray = Some id_stray
   \<and> id_stray \<notin> set (map n_id (travelNotes db_sample))
   \<and> updateNoteStatus no_faults 300 id_stray Approved None db_sample
       = (Inr Success_true, db_sample)
   \<and> adminDeleteNote no_faults 300 id_stray db_sample = (Inr Success_true, db_sample)
   \<and> fst (updateNoteStatus no_faults 300 id_note1 Approved None db_sample) = Inr Success_true
   \<and> fst (adminDeleteNote no_faults 300 id_note1 db_sample) = Inr Success_true
   \<and> uuid_in ''not-a-uuid'' = None
   \<and> updateNoteStatus no_faults 300 ''not-a-uuid'' Approved None db_sample
       = (Inl DbError, db_sample)"
proof -
  have h1: "\<not> no_faults UpdateNoteStatus_update" and h2: "\<not> no_faults AdminDeleteNote_update"
    by (simp_all add: no_faults_def)
  have h3: "id_stray \<notin> set (map n_id (travelNotes db_sample))" by code_simp
  have u1: "uuid_in id_stray = Some id_stray" and u2: "uuid_in id_note1 = Some id_note1"
    and u3: "uuid_in ''not-a-uuid'' = None"
    by code_simp+
  from admin_updates_succeed_on_uuid[OF h1 h2, of id_stray 300 Approved None db_sample]
    admin_updates_succeed_on_uuid[OF h1 h2, of id_note1 300 Approved None db_sample]
    admin_updates_succeed_on_uuid[OF h1 h2, of "''not-a-uuid''" 300 Approved None db_sample]
    h3 u1 u2 u3
  show ?thesis by (simp add: prod_eq_iff)
qed

text \<open>
  Against C10 as stated: the review form is posted with the note id \<open>not-a-uuid\<close>.
  Neither function answers success: the database rejects the id, both throw, and the
  review action lets the error escape.
\<close>

theorem admin_updates_throw_on_malformed_id:
  "updateNoteStatus no_faults 300 ''not-a-uuid'' Approved None db_sample = (Inl DbError, db_sample)
   \<and> adminDeleteNote no_faults 300 ''not-a-uuid'' db_sample = (Inl DbError, db_sample)
   \<and> action_part_004 no_faults 300 ''admin''
        \<lparr>af_action = Some ''approve'', af_noteId = Some ''not-a-uuid'',
         af_rejectionReason = None\<rparr> db_sample
       = (Thrown_DbError, db_sample)"
  by code_simp

end
